theory Spec2Isabelle
  imports Main "HOL-Library.List_Lexorder" "HOL-Library.Char_ord"
begin

section \<open>Python text helpers used by the client\<close>

text \<open>
  The client of \<^verbatim>\<open>arcgis_api.py\<close> builds its messages and file names with f-strings,
  \<^verbatim>\<open>str.join\<close>, \<^verbatim>\<open>str.replace\<close> and \<^verbatim>\<open>os.path.join\<close>. Python integers are
  unbounded, so they are \<^typ>\<open>int\<close> here; strings are \<^typ>\<open>string\<close>.
\<close>

definition digit_char :: "nat \<Rightarrow> char" where
  "digit_char d = char_of (48 + d)"

text \<open>\<^verbatim>\<open>str(n)\<close> for a natural number: its decimal digits, most significant first.\<close>

function string_of_nat :: "nat \<Rightarrow> string" where
  "string_of_nat n =
     (if n < 10 then [digit_char n]
      else string_of_nat (n div 10) @ [digit_char (n mod 10)])"
  by pat_completeness auto
termination
  by (relation "measure (\<lambda>n. n)") auto

declare string_of_nat.simps [simp del]

text \<open>\<^verbatim>\<open>str(i)\<close> and \<^verbatim>\<open>f"{i}"\<close> for a Python integer.\<close>

definition string_of_int :: "int \<Rightarrow> string" where
  "string_of_int i =
     (if i < 0 then CHR ''-'' # string_of_nat (nat (- i)) else string_of_nat (nat i))"

text \<open>\<^verbatim>\<open>f"{n:04d}"\<close> for a counter that is never negative: zero-padded to four digits.\<close>

definition format_04d :: "nat \<Rightarrow> string" where
  "format_04d n = replicate (4 - length (string_of_nat n)) CHR ''0'' @ string_of_nat n"

text \<open>\<^verbatim>\<open>sep.join(parts)\<close>.\<close>

fun py_join :: "string \<Rightarrow> string list \<Rightarrow> string" where
  "py_join sep [] = []"
| "py_join sep [x] = x"
| "py_join sep (x # y # ys) = x @ sep @ py_join sep (y # ys)"

text \<open>\<^verbatim>\<open>str(b).lower()\<close> for a Boolean.\<close>

definition str_bool_lower :: "bool \<Rightarrow> string" where
  "str_bool_lower b = (if b then ''true'' else ''false'')"

text \<open>
  \<^verbatim>\<open>s.replace(old, new)\<close>: every occurrence of \<open>old\<close> is replaced, scanning from the
  left and without overlaps. For an empty \<open>old\<close> Python puts \<open>new\<close> before every
  character and at the end.
\<close>

fun replace_scan :: "string \<Rightarrow> string \<Rightarrow> nat \<Rightarrow> string \<Rightarrow> string" where
  "replace_scan old new k [] = []"
| "replace_scan old new k (c # cs) =
     (if k = 0 \<and> take (length old) (c # cs) = old
      then new @ replace_scan old new (length old - 1) cs
      else if k = 0 then c # replace_scan old new 0 cs
      else replace_scan old new (k - 1) cs)"

definition py_replace :: "string \<Rightarrow> string \<Rightarrow> string \<Rightarrow> string" where
  "py_replace old new s =
     (if old = [] then new @ concat (map (\<lambda>c. c # new) s)
      else replace_scan old new 0 s)"

text \<open>\<^verbatim>\<open>os.path.join(a, b)\<close> of \<^verbatim>\<open>posixpath\<close>, for two components.\<close>

definition path_join :: "string \<Rightarrow> string \<Rightarrow> string" where
  "path_join a b =
     (if b \<noteq> [] \<and> hd b = CHR ''/'' then b
      else if a = [] \<or> last a = CHR ''/'' then a @ b
      else a @ ''/'' @ b)"

section \<open>Exceptions, requests and responses\<close>

text \<open>
  The exceptions the module meets. \<open>Timeout\<close> is \<^verbatim>\<open>requests.exceptions.Timeout\<close>;
  \<open>RequestException\<close> stands for every other \<^verbatim>\<open>requests.exceptions.RequestException\<close>
  (connection failures, the \<^verbatim>\<open>HTTPError\<close> of \<^verbatim>\<open>raise_for_status\<close>, a body that does
  not decode); \<open>KeyError\<close> is Python's; \<open>OtherError\<close> stands for any further subclass of
  \<^verbatim>\<open>Exception\<close>; \<open>Exception\<close> is the plain \<^verbatim>\<open>Exception(msg)\<close> the module raises itself.
  Each carries the text \<^verbatim>\<open>str(e)\<close> gives.
\<close>

datatype exn =
    Timeout string
  | RequestException string
  | KeyError string
  | OtherError string
  | Exception string

fun message :: "exn \<Rightarrow> string" where
  "message (Timeout m) = m"
| "message (RequestException m) = m"
| "message (KeyError m) = m"
| "message (OtherError m) = m"
| "message (Exception m) = m"

text \<open>A value of the query-parameter dictionary.\<close>

datatype pval = PStr string | PInt int

text \<open>One \<^verbatim>\<open>session.get(url, params=..., timeout=...)\<close>.\<close>

record request =
  url :: string
  params :: "(string \<times> pval) list"
  req_timeout :: int

definition BASE_URL :: string where
  "BASE_URL = ''https://services6.arcgis.com/bdPqSfflsdgFRVVM/arcgis/rest/services/SYRCityline_Requests_2021_Present/FeatureServer/0/query''"

text \<open>
  The query parameters \<^verbatim>\<open>fetch_records\<close> builds (lines 138 to 148): a dictionary in
  insertion order, \<^verbatim>\<open>orderByFields\<close> added only for a truthy \<^verbatim>\<open>order_by\<close>.
\<close>

definition fetch_params ::
  "int \<Rightarrow> int \<Rightarrow> string \<Rightarrow> string list option \<Rightarrow> bool \<Rightarrow> string option
     \<Rightarrow> (string \<times> pval) list" where
  "fetch_params limit offset where_clause flds return_geometry order_by =
     [(''where'', PStr where_clause),
      (''outFields'', PStr (case flds of None \<Rightarrow> ''*''
                            | Some fs \<Rightarrow> if fs = [] then ''*'' else py_join '','' fs)),
      (''returnGeometry'', PStr (str_bool_lower return_geometry)),
      (''f'', PStr ''json''),
      (''resultOffset'', PInt offset),
      (''resultRecordCount'', PInt (min limit 2000))]
     @ (case order_by of None \<Rightarrow> []
        | Some ob \<Rightarrow> if ob = [] then [] else [(''orderByFields'', PStr ob)])"

text \<open>
  The decoded JSON body of a response, as far as the module reads it: the top-level keys
  \<^verbatim>\<open>error\<close>, \<^verbatim>\<open>features\<close> and \<^verbatim>\<open>fields\<close>, each present or not. A body is taken
  well-formed for the wire protocol: \<^verbatim>\<open>features\<close> is an array of objects whose
  \<^verbatim>\<open>attributes\<close> entry, when there is one, is an object of scalars (a raw row), and
  \<^verbatim>\<open>fields\<close> is an array of objects of texts. The error payload is kept as the text
  \<^verbatim>\<open>str()\<close> gives for it, the only use the module makes of it. The type \<open>'v\<close> of
  the scalars is left open.
\<close>

type_synonym 'v row = "(string \<times> 'v) list"

datatype 'v feature = Feature (attributes: "'v row option")

type_synonym field = "(string \<times> string) list"

record 'v body =
  error :: "string option"
  features :: "'v feature list option"
  fields_entry :: "field list option"

text \<open>
  The remote service and the transport under \<^verbatim>\<open>session.get\<close>,
  \<^verbatim>\<open>raise_for_status\<close> and \<^verbatim>\<open>response.json()\<close>: from its own state \<open>'w\<close> and a
  request it raises or returns a decoded body, and moves to a new state. The record
  \<open>net\<close> adds the list of the requests sent so far.
\<close>

type_synonym ('w, 'v) http = "'w \<Rightarrow> request \<Rightarrow> (exn + 'v body) \<times> 'w"

record 'w net =
  world :: 'w
  sent :: "request list"

text \<open>The fields of a \<^verbatim>\<open>SyracuseDataAPI\<close> object (the session is in \<open>net\<close>).\<close>

record client =
  timeout :: int
  field_names :: "string list option"

section \<open>\<^verbatim>\<open>_make_request\<close>\<close>

definition make_request ::
  "('w, 'v) http \<Rightarrow> client \<Rightarrow> 'w net \<Rightarrow> (string \<times> pval) list
     \<Rightarrow> (exn + 'v body) \<times> 'w net" where
  "make_request http self n ps =
     (let rq = \<lparr>url = BASE_URL, params = ps, req_timeout = timeout self\<rparr>
      in case http (world n) rq of
           (r, w') \<Rightarrow>
             ((case r of
                 Inl (Timeout m) \<Rightarrow>
                   Inl (Exception (''Request timed out after ''
                          @ string_of_int (timeout self) @ '' seconds''))
               | Inl (RequestException m) \<Rightarrow>
                   Inl (Exception (''API request failed: '' @ m))
               | Inl e \<Rightarrow> Inl e
               | Inr data \<Rightarrow> Inr data),
              \<lparr>world = w', sent = sent n @ [rq]\<rparr>))"

section \<open>Tables\<close>

text \<open>
  A pandas \<^verbatim>\<open>DataFrame\<close>, as far as the module uses one: the column names in order, the
  rows in order, and the \<^verbatim>\<open>attrs\<close> dictionary. A row is kept as the dictionary it came
  from; a column it has no entry for holds a missing value (NaN) in that row.
  The pandas operations are modelled from their documented behaviour.

  The cells are kept as they were decoded. pandas stores a column by type, and a column
  with a missing cell is converted when the table is built: a column of integers becomes
  \<^verbatim>\<open>float64\<close>, so that 1 is read back as 1.0 and \<^verbatim>\<open>2**53+1\<close> as 9007199254740992.0.
  The module reads cells only in the two reductions of \<^verbatim>\<open>save_raw_data\<close>; there, what
  is read from a column with a missing cell is a parameter of the model
  (\<open>str_series_min\<close> and \<open>str_series_max\<close> below).
\<close>

datatype attr = AttrStr string | AttrInt int

record 'v dataframe =
  columns :: "string list"
  rows :: "'v row list"
  attrs :: "(string \<times> attr) list"

text \<open>The elements of a list in the order of their first occurrence.\<close>

fun unique :: "'a list \<Rightarrow> 'a list" where
  "unique [] = []"
| "unique (x # xs) = x # filter (\<lambda>y. y \<noteq> x) (unique xs)"

text \<open>\<^verbatim>\<open>pd.DataFrame()\<close> and \<^verbatim>\<open>pd.DataFrame(records)\<close> for a list of dictionaries.\<close>

definition pd_DataFrame_empty :: "'v dataframe" where
  "pd_DataFrame_empty = \<lparr>columns = [], rows = [], attrs = []\<rparr>"

definition pd_DataFrame :: "'v row list \<Rightarrow> 'v dataframe" where
  "pd_DataFrame records =
     \<lparr>columns = unique (concat (map (map fst) records)), rows = records, attrs = []\<rparr>"

text \<open>\<^verbatim>\<open>len(df)\<close> counts rows; \<^verbatim>\<open>df.empty\<close> holds when either axis has length 0.\<close>

definition len :: "'v dataframe \<Rightarrow> nat" where
  "len df = length (rows df)"

definition empty :: "'v dataframe \<Rightarrow> bool" where
  "empty df = (rows df = [] \<or> columns df = [])"

text \<open>
  \<^verbatim>\<open>pd.concat(dfs, ignore_index=True)\<close>: the rows in order, the union of the columns.
  For an empty list pandas raises \<^verbatim>\<open>ValueError\<close>.
\<close>

definition pd_concat :: "'v dataframe list \<Rightarrow> exn + 'v dataframe" where
  "pd_concat dfs =
     (if dfs = [] then Inl (OtherError ''No objects to concatenate'')
      else Inr \<lparr>columns = unique (concat (map columns dfs)),
                rows = concat (map rows dfs), attrs = []\<rparr>)"

text \<open>
  \<^verbatim>\<open>df[col]\<close> as the list of the cells of a column, \<open>None\<close> for a missing cell, and
  the values of the cells that are not missing.
\<close>

definition column :: "'v dataframe \<Rightarrow> string \<Rightarrow> 'v option list" where
  "column df c = map (\<lambda>r. map_of r c) (rows df)"

definition present :: "'v option list \<Rightarrow> 'v list" where
  "present xs = concat (map (\<lambda>x. case x of None \<Rightarrow> [] | Some v \<Rightarrow> [v]) xs)"

text \<open>
  \<^verbatim>\<open>str(series.min())\<close> and \<^verbatim>\<open>str(series.max())\<close>, on the cells of the column:
  \<^item> a column with no row reduces to NaN, and \<^verbatim>\<open>str\<close> gives \<^verbatim>\<open>nan\<close>;
  \<^item> a column in which every row has a value reduces to the least (greatest) value in
    the order of \<open>'v\<close>, and \<open>py_str\<close> is \<^verbatim>\<open>str\<close> on such a value;
  \<^item> for a column with a missing cell the text is given by the parameter \<open>na_min\<close>
    (\<open>na_max\<close>): pandas has converted such a column, and what the reduction of the
    converted column prints depends on its type. The reduction is taken to return
    there.
\<close>

definition str_series_min ::
  "('v::linorder \<Rightarrow> string) \<Rightarrow> ('v option list \<Rightarrow> string) \<Rightarrow> 'v option list \<Rightarrow> string" where
  "str_series_min py_str na_min cells =
     (if None \<in> set cells then na_min cells
      else case present cells of [] \<Rightarrow> ''nan'' | v # vs \<Rightarrow> py_str (fold min vs v))"

definition str_series_max ::
  "('v::linorder \<Rightarrow> string) \<Rightarrow> ('v option list \<Rightarrow> string) \<Rightarrow> 'v option list \<Rightarrow> string" where
  "str_series_max py_str na_max cells =
     (if None \<in> set cells then na_max cells
      else case present cells of [] \<Rightarrow> ''nan'' | v # vs \<Rightarrow> py_str (fold max vs v))"

section \<open>\<^verbatim>\<open>fetch_records\<close>\<close>

definition fetch_records ::
  "('w, 'v) http \<Rightarrow> client \<Rightarrow> 'w net \<Rightarrow> int \<Rightarrow> int \<Rightarrow> string
     \<Rightarrow> string list option \<Rightarrow> bool \<Rightarrow> string option
     \<Rightarrow> (exn + 'v dataframe) \<times> 'w net" where
  "fetch_records http self n limit offset where_clause flds return_geometry order_by =
     (case make_request http self n
             (fetch_params limit offset where_clause flds return_geometry order_by) of
        (Inl e, n') \<Rightarrow> (Inl e, n')
      | (Inr data, n') \<Rightarrow>
          (case error data of
             Some error_msg \<Rightarrow> (Inl (Exception (''API Error: '' @ error_msg)), n')
           | None \<Rightarrow>
               (let feats = (case features data of None \<Rightarrow> [] | Some fs \<Rightarrow> fs)
                in if feats = [] then (Inr pd_DataFrame_empty, n')
                   else (Inr (pd_DataFrame
                           (map (\<lambda>feature. case attributes feature of
                                              None \<Rightarrow> [] | Some a \<Rightarrow> a) feats)),
                         n'))))"

section \<open>\<^verbatim>\<open>fetch_all_records\<close>\<close>

text \<open>
  What the module does to the file system, in order. The CSV and JSON codecs are outside
  the module: a written file is recorded with the value handed to the codec, and writes
  are taken to succeed.
\<close>

record metadata =
  extraction_timestamp :: string
  record_count :: nat
  meta_columns :: "string list"
  date_range_min :: "string option"
  date_range_max :: "string option"

datatype 'v file_event =
    MakeDirs string
  | WriteCsv string "'v dataframe"
  | WriteJson string metadata

text \<open>The local variables of the pagination loop, with the session and the file system.\<close>

record ('w, 'v) loop_state =
  net :: "'w net"
  files :: "'v file_event list"
  all_data :: "'v dataframe list"
  offset :: int
  batch_num :: nat

datatype ('w, 'v) flow =
    Raise exn "('w, 'v) loop_state"
  | Break "('w, 'v) loop_state"
  | Continue "('w, 'v) loop_state"

text \<open>
  One pass through the body of \<^verbatim>\<open>while True\<close> (lines 205 to 236). The test
  \<^verbatim>\<open>max_records and offset >= max_records\<close> is false for \<^verbatim>\<open>None\<close> and for 0.
  \<^verbatim>\<open>time.sleep(0.5)\<close> changes nothing that is modelled.
\<close>

definition loop_body ::
  "('w, 'v) http \<Rightarrow> client \<Rightarrow> int \<Rightarrow> int option \<Rightarrow> string \<Rightarrow> bool \<Rightarrow> string
     \<Rightarrow> ('w, 'v) loop_state \<Rightarrow> ('w, 'v) flow" where
  "loop_body http self batch_size max_records where_clause save_raw output_dir st =
     (case fetch_records http self (net st) batch_size (offset st) where_clause
             None False None of
        (Inl e, n') \<Rightarrow> Raise e (st\<lparr>net := n'\<rparr>)
      | (Inr df_batch, n') \<Rightarrow>
          if empty df_batch then Break (st\<lparr>net := n'\<rparr>)
          else
            (let st1 = st\<lparr>net := n', all_data := all_data st @ [df_batch]\<rparr>;
                 st2 = (if save_raw
                        then st1\<lparr>files := files st1 @
                               [WriteCsv (path_join output_dir
                                  (''raw_batch_'' @ format_04d (batch_num st1) @ ''.csv''))
                                  df_batch]\<rparr>
                        else st1);
                 st3 = st2\<lparr>offset := offset st2 + int (len df_batch),
                           batch_num := batch_num st2 + 1\<rparr>
             in if (case max_records of None \<Rightarrow> False
                    | Some m \<Rightarrow> m \<noteq> 0 \<and> offset st3 \<ge> m)
                then Break st3
                else if int (len df_batch) < batch_size then Break st3
                else Continue st3))"

text \<open>The loop state once a page that is not empty has been kept (lines 214 to 226).\<close>

definition after_batch ::
  "bool \<Rightarrow> string \<Rightarrow> ('w, 'v) loop_state \<Rightarrow> 'v dataframe \<Rightarrow> 'w net \<Rightarrow> ('w, 'v) loop_state" where
  "after_batch save_raw output_dir st df n' =
     st\<lparr>net := n', all_data := all_data st @ [df],
        files := (if save_raw
                  then files st @
                       [WriteCsv (path_join output_dir
                          (''raw_batch_'' @ format_04d (batch_num st) @ ''.csv'')) df]
                  else files st),
        offset := offset st + int (len df),
        batch_num := batch_num st + 1\<rparr>"

text \<open>
  The loop itself. It ends only through \<^verbatim>\<open>break\<close> or an exception, so it may run for
  ever: the result \<open>None\<close> is a run that does not return.
\<close>

partial_function (option) fetch_loop ::
  "(('w, 'v) loop_state \<Rightarrow> ('w, 'v) flow) \<Rightarrow> ('w, 'v) loop_state
     \<Rightarrow> (exn option \<times> ('w, 'v) loop_state) option" where
  "fetch_loop body st =
     (case body st of
        Raise e st' \<Rightarrow> Some (Some e, st')
      | Break st' \<Rightarrow> Some (None, st')
      | Continue st' \<Rightarrow> fetch_loop body st')"

text \<open>
  \<^verbatim>\<open>fetch_all_records\<close>; \<open>now_iso\<close> is what \<^verbatim>\<open>datetime.now().isoformat()\<close> gives at
  line 245. The result is the exception raised or the table returned, with the session
  and the file system as the run leaves them.
\<close>

definition fetch_all_records ::
  "('w, 'v) http \<Rightarrow> client \<Rightarrow> string \<Rightarrow> 'w net \<Rightarrow> 'v file_event list
     \<Rightarrow> int \<Rightarrow> int option \<Rightarrow> string \<Rightarrow> bool \<Rightarrow> string
     \<Rightarrow> ((exn + 'v dataframe) \<times> 'w net \<times> 'v file_event list) option" where
  "fetch_all_records http self now_iso n fs batch_size max_records where_clause
       save_raw output_dir =
     (case fetch_loop
             (loop_body http self batch_size max_records where_clause save_raw output_dir)
             \<lparr>net = n, files = (if save_raw then fs @ [MakeDirs output_dir] else fs),
              all_data = [], offset = 0, batch_num = 0\<rparr> of
        None \<Rightarrow> None
      | Some (Some e, st) \<Rightarrow> Some (Inl e, net st, files st)
      | Some (None, st) \<Rightarrow>
          Some (if all_data st = [] then Inr pd_DataFrame_empty
                else (case pd_concat (all_data st) of
                        Inl e \<Rightarrow> Inl e
                      | Inr df_combined \<Rightarrow>
                          Inr (df_combined\<lparr>attrs :=
                                 [(''extraction_timestamp'', AttrStr now_iso),
                                  (''total_records'',
                                   AttrInt (int (len df_combined)))]\<rparr>)),
                net st, files st))"

section \<open>\<^verbatim>\<open>save_raw_data\<close>\<close>

text \<open>
  \<open>stamp\<close> is \<^verbatim>\<open>datetime.now().strftime('%Y%m%d_%H%M%S')\<close> at line 288 and \<open>now_iso\<close>
  is \<^verbatim>\<open>datetime.now().isoformat()\<close> at line 298; \<open>py_str\<close>, \<open>na_min\<close> and
  \<open>na_max\<close> are the parameters of the two reductions. The result is the returned path
  and the file system.
\<close>

definition save_raw_data ::
  "('v \<Rightarrow> string) \<Rightarrow> ('v option list \<Rightarrow> string) \<Rightarrow> ('v option list \<Rightarrow> string)
     \<Rightarrow> string \<Rightarrow> string \<Rightarrow> 'v file_event list
     \<Rightarrow> ('v::linorder) dataframe \<Rightarrow> string option \<Rightarrow> string
     \<Rightarrow> string \<times> 'v file_event list" where
  "save_raw_data py_str na_min na_max stamp now_iso fs df filename output_dir =
     (let fname = (case filename of
                     None \<Rightarrow> ''syracuse_311_raw_'' @ stamp @ ''.csv''
                   | Some f \<Rightarrow> f);
          filepath = path_join output_dir fname;
          metadata =
            \<lparr>extraction_timestamp = now_iso,
             record_count = len df,
             meta_columns = columns df,
             date_range_min =
               (if ''Created_at_local'' \<in> set (columns df)
                then Some (str_series_min py_str na_min (column df ''Created_at_local''))
                else None),
             date_range_max =
               (if ''Created_at_local'' \<in> set (columns df)
                then Some (str_series_max py_str na_max (column df ''Created_at_local''))
                else None)\<rparr>;
          metadata_file = py_replace ''.csv'' ''_metadata.json'' filepath
      in (filepath,
          fs @ [MakeDirs output_dir, WriteCsv filepath df,
                WriteJson metadata_file metadata]))"

section \<open>\<^verbatim>\<open>get_field_info\<close>\<close>

text \<open>
  The console is the list \<open>out\<close> of the lines printed. \<^verbatim>\<open>field['name']\<close> raises
  \<^verbatim>\<open>KeyError\<close> on a descriptor without that key; the lines printed before stay printed.
\<close>

definition quoted :: "string \<Rightarrow> string" where
  "quoted s = [char_of (39::nat)] @ s @ [char_of (39::nat)]"

fun print_fields :: "field list \<Rightarrow> string list \<Rightarrow> exn option \<times> string list" where
  "print_fields [] out = (None, out)"
| "print_fields (f # fs) out =
     (case map_of f ''name'' of
        None \<Rightarrow> (Some (KeyError (quoted ''name'')), out)
      | Some nm \<Rightarrow>
          (case map_of f ''type'' of
             None \<Rightarrow> (Some (KeyError (quoted ''type'')), out)
           | Some ty \<Rightarrow>
               print_fields fs (out @ [''  - '' @ nm @ '' ('' @ ty @ '')''])))"

fun collect_names :: "field list \<Rightarrow> exn + string list" where
  "collect_names [] = Inr []"
| "collect_names (f # fs) =
     (case map_of f ''name'' of
        None \<Rightarrow> Inl (KeyError (quoted ''name''))
      | Some nm \<Rightarrow>
          (case collect_names fs of Inl e \<Rightarrow> Inl e | Inr ns \<Rightarrow> Inr (nm # ns)))"

text \<open>The \<^verbatim>\<open>try\<close> block (lines 91 to 106): what it raises or returns.\<close>

definition get_field_info_try ::
  "('w, 'v) http \<Rightarrow> client \<Rightarrow> 'w net \<Rightarrow> string list
     \<Rightarrow> (exn + field list) \<times> client \<times> 'w net \<times> string list" where
  "get_field_info_try http self n out =
     (let rq = \<lparr>url = py_replace ''/query'' [] BASE_URL,
                params = [(''f'', PStr ''json'')], req_timeout = timeout self\<rparr>
      in case http (world n) rq of
           (r, w') \<Rightarrow>
             (let n' = \<lparr>world = w', sent = sent n @ [rq]\<rparr>
              in case r of
                   Inl e \<Rightarrow> (Inl e, self, n', out)
                 | Inr data \<Rightarrow>
                     (let flds = (case fields_entry data of None \<Rightarrow> [] | Some fs \<Rightarrow> fs);
                          out1 = out @ [char_of (10::nat) # ''=== Available fields: ''
                                   @ string_of_nat (length flds) @ '' ==='']
                      in case print_fields flds out1 of
                           (Some e, out2) \<Rightarrow> (Inl e, self, n', out2)
                         | (None, out2) \<Rightarrow>
                             (case collect_names flds of
                                Inl e \<Rightarrow> (Inl e, self, n', out2)
                              | Inr names \<Rightarrow>
                                  (Inr flds, self\<lparr>field_names := Some names\<rparr>,
                                   n', out2)))))"

text \<open>
  \<^verbatim>\<open>get_field_info\<close>: the \<^verbatim>\<open>try\<close> block under \<^verbatim>\<open>except Exception as e\<close>, which
  prints and returns the empty list.
\<close>

definition get_field_info ::
  "('w, 'v) http \<Rightarrow> client \<Rightarrow> 'w net \<Rightarrow> string list
     \<Rightarrow> (exn + field list) \<times> client \<times> 'w net \<times> string list" where
  "get_field_info http self n out =
     (case get_field_info_try http self n out of
        (Inl e, self', n', out') \<Rightarrow>
          (Inr [], self', n', out' @ [''Could not fetch field info: '' @ message e])
      | (Inr flds, self', n', out') \<Rightarrow> (Inr flds, self', n', out'))"

section \<open>Remote services used as examples\<close>

text \<open>
  A service that replays a prepared list of bodies, one for each request whatever it
  asks, and fails once the list is used up.
\<close>

fun replay :: "('v body list, 'v) http" where
  "replay [] rq = (Inl (RequestException ''no response left''), [])"
| "replay (b # bs) rq = (Inr b, bs)"

text \<open>A body with \<open>k\<close> copies of one feature and no \<^verbatim>\<open>error\<close> key.\<close>

definition page_of :: "nat \<Rightarrow> 'v feature \<Rightarrow> 'v body" where
  "page_of k feat = \<lparr>error = None, features = Some (replicate k feat), fields_entry = None\<rparr>"

text \<open>
  A service over a fixed table that answers a request with the rows from
  \<^verbatim>\<open>resultOffset\<close> on, at most \<^verbatim>\<open>resultRecordCount\<close> of them.
\<close>

definition table_service :: "'v row list \<Rightarrow> (unit, 'v) http" where
  "table_service tbl w rq =
     (case (map_of (params rq) ''resultOffset'', map_of (params rq) ''resultRecordCount'') of
        (Some (PInt off), Some (PInt cnt)) \<Rightarrow>
          (Inr \<lparr>error = None,
                features = Some (map (\<lambda>r. Feature (Some r))
                                  (take (nat cnt) (drop (nat off) tbl))),
                fields_entry = None\<rparr>, w)
      | _ \<Rightarrow> (Inl (RequestException ''400 Client Error''), w))"



section \<open>Decimal rendering is injective\<close>

lemma digit_char_inj:
  "d < 10 \<Longrightarrow> e < 10 \<Longrightarrow> digit_char d = digit_char e \<Longrightarrow> d = e"
proof -
  assume d: "d < 10" and e: "e < 10" and eq: "digit_char d = digit_char e"
  from eq have "(of_char (digit_char d) :: nat) = of_char (digit_char e)" by simp
  with d e show "d = e" by (simp add: digit_char_def)
qed

lemma digit_char_not_minus: "d < 10 \<Longrightarrow> digit_char d \<noteq> CHR ''-''"
proof
  assume d: "d < 10" and eq: "digit_char d = CHR ''-''"
  from eq have "(of_char (digit_char d) :: nat) = of_char (CHR ''-'')" by simp
  with d show False by (simp add: digit_char_def)
qed

lemma string_of_nat_nonempty: "string_of_nat n \<noteq> []"
  by (subst string_of_nat.simps) simp

lemma string_of_nat_no_minus: "CHR ''-'' \<notin> set (string_of_nat n)"
proof (induction n rule: string_of_nat.induct)
  case (1 n)
  show ?case
  proof (cases "n < 10")
    case True
    then show ?thesis
      using digit_char_not_minus [of n] by (subst string_of_nat.simps) auto
  next
    case False
    then show ?thesis
      using 1 digit_char_not_minus [of "n mod 10"]
      by (subst string_of_nat.simps) auto
  qed
qed

lemma string_of_nat_inj: "string_of_nat n = string_of_nat m \<Longrightarrow> n = m"
proof (induction n arbitrary: m rule: string_of_nat.induct)
  case (1 n)
  show ?case
  proof (cases "n < 10")
    case n: True
    show ?thesis
    proof (cases "m < 10")
      case True
      with n 1(2) show ?thesis
        by (simp add: string_of_nat.simps [of n] string_of_nat.simps [of m] digit_char_inj)
    next
      case False
      with n 1(2) show ?thesis
        using string_of_nat_nonempty [of "m div 10"]
        by (simp add: string_of_nat.simps [of n] string_of_nat.simps [of m])
    qed
  next
    case n: False
    show ?thesis
    proof (cases "m < 10")
      case True
      with n 1(2) show ?thesis
        using string_of_nat_nonempty [of "n div 10"]
        by (simp add: string_of_nat.simps [of n] string_of_nat.simps [of m])
    next
      case False
      with n 1(2) have a: "string_of_nat (n div 10) = string_of_nat (m div 10)"
        and b: "digit_char (n mod 10) = digit_char (m mod 10)"
        by (simp_all add: string_of_nat.simps [of n] string_of_nat.simps [of m])
      from 1(1) [OF n a] have "n div 10 = m div 10" .
      moreover from b have "n mod 10 = m mod 10"
        by (rule digit_char_inj [rotated 2]) simp_all
      ultimately show ?thesis
        by (metis div_mult_mod_eq)
    qed
  qed
qed

lemma string_of_int_inj: "string_of_int i = string_of_int j \<Longrightarrow> i = j"
proof -
  assume eq: "string_of_int i = string_of_int j"
  have hd_nat: "\<And>k. hd (string_of_nat k) \<noteq> CHR ''-''"
    using string_of_nat_no_minus string_of_nat_nonempty
    by (metis hd_in_set)
  show "i = j"
  proof (cases "i < 0")
    case i: True
    show ?thesis
    proof (cases "j < 0")
      case True
      with i eq have "string_of_nat (nat (- i)) = string_of_nat (nat (- j))"
        by (simp add: string_of_int_def)
      then have "nat (- i) = nat (- j)" by (rule string_of_nat_inj)
      with i True show ?thesis by simp
    next
      case False
      with i eq have "CHR ''-'' # string_of_nat (nat (- i)) = string_of_nat (nat j)"
        by (simp add: string_of_int_def)
      then have "hd (string_of_nat (nat j)) = CHR ''-''" by (metis list.sel(1))
      with hd_nat show ?thesis by blast
    qed
  next
    case i: False
    show ?thesis
    proof (cases "j < 0")
      case True
      with i eq have "string_of_nat (nat i) = CHR ''-'' # string_of_nat (nat (- j))"
        by (simp add: string_of_int_def)
      then have "hd (string_of_nat (nat i)) = CHR ''-''" by (metis list.sel(1))
      with hd_nat show ?thesis by blast
    next
      case False
      with i eq have "string_of_nat (nat i) = string_of_nat (nat j)"
        by (simp add: string_of_int_def)
      then have "nat i = nat j" by (rule string_of_nat_inj)
      with i False show ?thesis by simp
    qed
  qed
qed

section \<open>Facts about the model\<close>

lemma fetch_records_sent:
  "fetch_records http self n limit off where_clause flds return_geometry order_by = (r, n')
   \<Longrightarrow> sent n' = sent n @
         [\<lparr>url = BASE_URL,
           params = fetch_params limit off where_clause flds return_geometry order_by,
           req_timeout = timeout self\<rparr>]"
  by (auto simp add: fetch_records_def make_request_def Let_def
        split: prod.splits sum.splits option.splits if_splits exn.splits)

lemma fold_min_Min: "fold min vs (v::'a::linorder) = Min (set (v # vs))"
  using Min.set_eq_fold [of v vs] by simp

lemma fold_max_Max: "fold max vs (v::'a::linorder) = Max (set (v # vs))"
  using Max.set_eq_fold [of v vs] by simp

lemma present_all:
  "None \<notin> set cells \<Longrightarrow> map Some (present cells) = cells"
proof (induction cells)
  case Nil
  show ?case by (simp add: present_def)
next
  case (Cons a cells)
  then show ?case by (cases a) (simp_all add: present_def)
qed

lemma present_nonempty:
  "cells \<noteq> [] \<Longrightarrow> None \<notin> set cells \<Longrightarrow> present cells \<noteq> []"
  using present_all [of cells] by auto

lemma str_series_min_Min:
  "cells \<noteq> [] \<Longrightarrow> None \<notin> set cells
   \<Longrightarrow> str_series_min py_str na_min cells = py_str (Min (set (present cells)))"
  using present_nonempty [of cells]
  by (cases "present cells") (simp_all add: str_series_min_def fold_min_Min)

lemma str_series_max_Max:
  "cells \<noteq> [] \<Longrightarrow> None \<notin> set cells
   \<Longrightarrow> str_series_max py_str na_max cells = py_str (Max (set (present cells)))"
  using present_nonempty [of cells]
  by (cases "present cells") (simp_all add: str_series_max_def fold_max_Max)

lemma len_pd_DataFrame: "len (pd_DataFrame rs) = length rs"
  by (simp add: len_def pd_DataFrame_def)

lemma fetch_params_offset:
  "map_of (fetch_params limit off where_clause flds return_geometry order_by)
      ''resultOffset'' = Some (PInt off)"
  by (simp add: fetch_params_def)

lemma fetch_params_count:
  "map_of (fetch_params limit off where_clause flds return_geometry order_by)
      ''resultRecordCount'' = Some (PInt (min limit 2000))"
  by (simp add: fetch_params_def)




lemma loop_body_empty:
  "fetch_records http self (net st) batch_size (offset st) where_clause None False None
     = (Inr df, n')
   \<Longrightarrow> empty df
   \<Longrightarrow> loop_body http self batch_size max_records where_clause save_raw output_dir st
       = Break (st\<lparr>net := n'\<rparr>)"
  by (simp add: loop_body_def)

lemma loop_body_batch:
  "fetch_records http self (net st) batch_size (offset st) where_clause None False None
     = (Inr df, n')
   \<Longrightarrow> \<not> empty df
   \<Longrightarrow> loop_body http self batch_size max_records where_clause save_raw output_dir st
       = (if (case max_records of None \<Rightarrow> False
              | Some m \<Rightarrow> m \<noteq> 0 \<and> offset st + int (len df) \<ge> m)
          then Break (after_batch save_raw output_dir st df n')
          else if int (len df) < batch_size
          then Break (after_batch save_raw output_dir st df n')
          else Continue (after_batch save_raw output_dir st df n'))"
  by (cases max_records) (simp_all add: loop_body_def after_batch_def Let_def)




lemma unique_Nil: "unique xs = [] \<longleftrightarrow> xs = []"
  by (cases xs) simp_all

lemma empty_pd_DataFrame:
  "empty (pd_DataFrame rs) \<longleftrightarrow> (\<forall>r \<in> set rs. r = [])"
  by (cases rs) (auto simp add: empty_def pd_DataFrame_def unique_Nil)

lemma pd_concat_rows:
  "dfs \<noteq> [] \<Longrightarrow>
     pd_concat dfs = Inr \<lparr>columns = unique (concat (map columns dfs)),
                          rows = concat (map rows dfs), attrs = []\<rparr>"
  by (simp add: pd_concat_def)

lemma len_concat_rows:
  "length (concat (map rows dfs)) = sum_list (map len dfs)"
  by (induction dfs) (simp_all add: len_def)

lemma fetch_all_records_result:
  "fetch_loop (loop_body http self batch_size max_records where_clause save_raw output_dir)
      \<lparr>net = n, files = (if save_raw then fs @ [MakeDirs output_dir] else fs),
       all_data = [], offset = 0, batch_num = 0\<rparr> = Some (None, st)
   \<Longrightarrow> all_data st \<noteq> []
   \<Longrightarrow> fetch_all_records http self now_iso n fs batch_size max_records where_clause
         save_raw output_dir
       = Some (Inr \<lparr>columns = unique (concat (map columns (all_data st))),
                     rows = concat (map rows (all_data st)),
                     attrs = [(''extraction_timestamp'', AttrStr now_iso),
                              (''total_records'',
                               AttrInt (int (sum_list (map len (all_data st)))))]\<rparr>,
               net st, files st)"
  by (simp add: fetch_all_records_def pd_concat_rows len_def [of "\<lparr>columns = _, rows = _, attrs = _\<rparr>"]
        len_concat_rows)

lemma unique_replicate: "unique (replicate k x) = (if k = 0 then [] else [x])"
  by (induction k) simp_all


lemma fetch_records_table_service:
  "fetch_records (table_service tbl) self n limit off where_clause None False None
   = (Inr (if take (nat (min limit 2000)) (drop (nat off) tbl) = [] then pd_DataFrame_empty
           else pd_DataFrame (take (nat (min limit 2000)) (drop (nat off) tbl))),
      \<lparr>world = world n,
       sent = sent n @ [\<lparr>url = BASE_URL,
                         params = fetch_params limit off where_clause None False None,
                         req_timeout = timeout self\<rparr>]\<rparr>)"
  by (simp add: fetch_records_def make_request_def table_service_def fetch_params_offset
        fetch_params_count comp_def)

lemma fetch_records_replay_page:
  "0 < k \<Longrightarrow>
   fetch_records replay self \<lparr>world = page_of k feat # bs, sent = s\<rparr> limit off
      where_clause flds return_geometry order_by
   = (Inr (pd_DataFrame (replicate k (case attributes feat of None \<Rightarrow> [] | Some a \<Rightarrow> a))),
      \<lparr>world = bs,
       sent = s @ [\<lparr>url = BASE_URL,
                    params = fetch_params limit off where_clause flds return_geometry order_by,
                    req_timeout = timeout self\<rparr>]\<rparr>)"
  by (simp add: fetch_records_def make_request_def page_of_def)

text \<open>
  The file name of the module's own example (line 358) gives the metadata path its last
  lines print (line 367).
\<close>

lemma save_raw_data_sidecar_example:
  "\<exists>md. save_raw_data py_str na_min na_max stamp now_iso [] df
          (Some ''sample_raw_data.csv'') ''data/raw''
      = (''data/raw/sample_raw_data.csv'',
         [MakeDirs ''data/raw'', WriteCsv ''data/raw/sample_raw_data.csv'' df,
          WriteJson ''data/raw/sample_raw_data_metadata.json'' md])"
  by (simp add: save_raw_data_def Let_def path_join_def py_replace_def)






text \<open>
  With no active cap, a batch size of 0 fetches nothing, and so does a table whose rows
  have no field.
\<close>

lemma zero_cap_batch_zero:
  "fetch_all_records (table_service [[(''Id'', 7::nat)]])
      \<lparr>timeout = 30, field_names = None\<rparr> ''2024-01-01T00:00:00''
      \<lparr>world = (), sent = []\<rparr> [] 0 (Some 0) ''1=1'' False ''data/raw''
   = Some (Inr pd_DataFrame_empty,
           \<lparr>world = (),
            sent = [\<lparr>url = BASE_URL, params = fetch_params 0 0 ''1=1'' None False None,
                     req_timeout = 30\<rparr>]\<rparr>, [])"
proof -
  let ?self = "\<lparr>timeout = 30, field_names = None\<rparr>"
  let ?n = "\<lparr>world = (), sent = []\<rparr>"
  have page: "fetch_records (table_service [[(''Id'', 7::nat)]]) ?self ?n 0 0 ''1=1''
                None False None
              = (Inr pd_DataFrame_empty,
                 \<lparr>world = (),
                  sent = [\<lparr>url = BASE_URL, params = fetch_params 0 0 ''1=1'' None False None,
                           req_timeout = 30\<rparr>]\<rparr>)"
    by (simp add: fetch_records_table_service)
  have "empty (pd_DataFrame_empty :: nat dataframe)"
    by (simp add: empty_def pd_DataFrame_empty_def)
  with page show ?thesis
    by (simp add: fetch_all_records_def loop_body_def fetch_loop.simps [of _ "\<lparr>net = ?n, files = [], all_data = [], offset = 0, batch_num = 0\<rparr>"])
qed

lemma zero_cap_no_fields:
  "fetch_all_records (table_service [[] :: nat row])
      \<lparr>timeout = 30, field_names = None\<rparr> ''2024-01-01T00:00:00''
      \<lparr>world = (), sent = []\<rparr> [] 2000 (Some 0) ''1=1'' False ''data/raw''
   = Some (Inr pd_DataFrame_empty,
           \<lparr>world = (),
            sent = [\<lparr>url = BASE_URL, params = fetch_params 2000 0 ''1=1'' None False None,
                     req_timeout = 30\<rparr>]\<rparr>, [])"
proof -
  let ?self = "\<lparr>timeout = 30, field_names = None\<rparr>"
  let ?n = "\<lparr>world = (), sent = []\<rparr>"
  have page: "fetch_records (table_service [[] :: nat row]) ?self ?n 2000 0 ''1=1''
                None False None
              = (Inr (pd_DataFrame [[]]),
                 \<lparr>world = (),
                  sent = [\<lparr>url = BASE_URL, params = fetch_params 2000 0 ''1=1'' None False None,
                           req_timeout = 30\<rparr>]\<rparr>)"
    by (simp add: fetch_records_table_service)
  have "empty (pd_DataFrame [[] :: nat row])"
    by (simp add: empty_pd_DataFrame)
  with page show ?thesis
    by (simp add: fetch_all_records_def loop_body_def fetch_loop.simps [of _ "\<lparr>net = ?n, files = [], all_data = [], offset = 0, batch_num = 0\<rparr>"])
qed

section \<open>Properties\<close>

text \<open>
  C1. Whatever limit the caller requests, \<^verbatim>\<open>fetch_records\<close> sends exactly one request,
  and its \<^verbatim>\<open>resultRecordCount\<close> parameter is \<open>min limit 2000\<close>, so it never exceeds
  2000.
\<close>

theorem fetch_records_record_count:
  "\<exists>rq. sent (snd (fetch_records http self n limit off where_clause flds return_geometry
                     order_by)) = sent n @ [rq]
      \<and> map_of (params rq) ''resultRecordCount'' = Some (PInt (min limit 2000))
      \<and> min limit 2000 \<le> 2000"
proof -
  obtain r n' where
    "fetch_records http self n limit off where_clause flds return_geometry order_by = (r, n')"
    by (cases "fetch_records http self n limit off where_clause flds return_geometry order_by")
  then show ?thesis
    using fetch_records_sent [of http self n limit off where_clause flds return_geometry
        order_by r n']
    by (simp add: fetch_params_count)
qed

text \<open>
  C5. Whenever the decoded body of the response has a top-level \<^verbatim>\<open>error\<close> key,
  \<^verbatim>\<open>fetch_records\<close> raises \<^verbatim>\<open>Exception("API Error: ...")\<close> with the payload in its
  message and returns no table, although the transport reported success.
\<close>

theorem fetch_records_api_error:
  assumes "http (world n)
             \<lparr>url = BASE_URL,
              params = fetch_params limit off where_clause flds return_geometry order_by,
              req_timeout = timeout self\<rparr> = (Inr data, w')"
    and "error data = Some payload"
  shows "fetch_records http self n limit off where_clause flds return_geometry order_by
           = (Inl (Exception (''API Error: '' @ payload)),
              \<lparr>world = w', sent = sent n @
                 [\<lparr>url = BASE_URL,
                   params = fetch_params limit off where_clause flds return_geometry order_by,
                   req_timeout = timeout self\<rparr>]\<rparr>)"
  using assms by (simp add: fetch_records_def make_request_def)

theorem fetch_records_api_error_witness:
  "fetch_records replay \<lparr>timeout = 30, field_names = None\<rparr>
      \<lparr>world = [\<lparr>error = Some ''{code: 400}'', features = Some [Feature (Some [(''Id'', 1::nat)])],
                  fields_entry = None\<rparr>], sent = []\<rparr>
      1000 0 ''1=1'' None False None
   = (Inl (Exception (''API Error: '' @ ''{code: 400}'')),
      \<lparr>world = [], sent = [] @
         [\<lparr>url = BASE_URL, params = fetch_params 1000 0 ''1=1'' None False None,
           req_timeout = timeout \<lparr>timeout = 30, field_names = None\<rparr>\<rparr>]\<rparr>)"
  using fetch_records_api_error
    [of replay "\<lparr>world = [\<lparr>error = Some ''{code: 400}'', features = Some [Feature (Some [(''Id'', 1::nat)])],
                  fields_entry = None\<rparr>], sent = []\<rparr>"
        1000 0 "''1=1''" None False None "\<lparr>timeout = 30, field_names = None\<rparr>"
        "\<lparr>error = Some ''{code: 400}'', features = Some [Feature (Some [(''Id'', 1::nat)])],
                  fields_entry = None\<rparr>" "[]" "''{code: 400}''"]
  by simp

text \<open>
  C6. On a timeout \<^verbatim>\<open>_make_request\<close> raises an exception whose message holds the
  configured timeout, and on any other transport failure one whose message holds the
  text of the underlying failure. The module raises plain \<^verbatim>\<open>Exception\<close> for the three
  kinds of failure; what tells them apart is the message: the timeout can be read back
  from a timeout message, and the messages of the three kinds never coincide.
\<close>

theorem make_request_failure_kinds:
  "(http (world n) \<lparr>url = BASE_URL, params = ps, req_timeout = timeout self\<rparr>
       = (Inl (Timeout m), w')
     \<longrightarrow> fst (make_request http self n ps)
           = Inl (Exception (''Request timed out after '' @ string_of_int (timeout self)
                    @ '' seconds'')))
   \<and> (http2 (world n2) \<lparr>url = BASE_URL, params = ps2, req_timeout = timeout self2\<rparr>
       = (Inl (RequestException m2), w2)
     \<longrightarrow> fst (make_request http2 self2 n2 ps2)
           = Inl (Exception (''API request failed: '' @ m2)))
   \<and> (''Request timed out after '' @ string_of_int t @ '' seconds''
         = ''Request timed out after '' @ string_of_int t' @ '' seconds'' \<longrightarrow> t = t')
   \<and> ''Request timed out after '' @ string_of_int t @ '' seconds''
         \<noteq> ''API request failed: '' @ m3
   \<and> ''Request timed out after '' @ string_of_int t @ '' seconds''
         \<noteq> ''API Error: '' @ payload
   \<and> ''API request failed: '' @ m3 \<noteq> ''API Error: '' @ payload"
  by (auto simp add: make_request_def dest: string_of_int_inj)

theorem make_request_failure_kinds_witness:
  "fst (make_request (\<lambda>w rq. (Inl (Timeout ''Read timed out.'') :: exn + nat body, w))
          \<lparr>timeout = 30, field_names = None\<rparr> \<lparr>world = (), sent = []\<rparr> [])
     = Inl (Exception (''Request timed out after '' @ string_of_int 30 @ '' seconds''))
   \<and> fst (make_request (\<lambda>w rq. (Inl (RequestException ''404 Client Error'') :: exn + nat body, w))
          \<lparr>timeout = 30, field_names = None\<rparr> \<lparr>world = (), sent = []\<rparr> [])
     = Inl (Exception (''API request failed: '' @ ''404 Client Error''))
   \<and> (30::int) = 30"
  using make_request_failure_kinds
    [where http = "\<lambda>w rq. (Inl (Timeout ''Read timed out.'') :: exn + nat body, w)"
       and ?http2.0 = "\<lambda>w rq. (Inl (RequestException ''404 Client Error'') :: exn + nat body, w)"
       and self = "\<lparr>timeout = 30, field_names = None\<rparr>"
       and ?self2.0 = "\<lparr>timeout = 30, field_names = None\<rparr>"
       and n = "\<lparr>world = (), sent = []\<rparr>" and ?n2.0 = "\<lparr>world = (), sent = []\<rparr>"
       and ps = "[]" and ?ps2.0 = "[]" and m = "''Read timed out.''"
       and ?m2.0 = "''404 Client Error''" and w' = "()" and ?w2.0 = "()"
       and t = 30 and t' = 30]
  by simp

text \<open>
  C4. If the first page \<^verbatim>\<open>fetch_records\<close> returns is empty, \<^verbatim>\<open>fetch_all_records\<close>
  sends exactly one request and returns the empty table as a normal value; and every
  run whose loop ends without an exception and with no page kept returns the empty
  table.
\<close>

theorem fetch_all_records_first_page_empty:
  "(fetch_records http self n batch_size 0 where_clause None False None = (Inr df, n')
      \<and> empty df
    \<longrightarrow> fetch_all_records http self now_iso n fs batch_size max_records where_clause
            save_raw output_dir
          = Some (Inr pd_DataFrame_empty, n',
                  if save_raw then fs @ [MakeDirs output_dir] else fs)
        \<and> sent n' = sent n @
            [\<lparr>url = BASE_URL,
              params = fetch_params batch_size 0 where_clause None False None,
              req_timeout = timeout self\<rparr>])
   \<and> (fetch_loop
         (loop_body http2 self2 batch_size2 max_records2 where_clause2 save_raw2 output_dir2)
         \<lparr>net = n2, files = (if save_raw2 then fs2 @ [MakeDirs output_dir2] else fs2),
          all_data = [], offset = 0, batch_num = 0\<rparr> = Some (None, st)
      \<and> all_data st = []
    \<longrightarrow> fetch_all_records http2 self2 now_iso2 n2 fs2 batch_size2 max_records2 where_clause2
            save_raw2 output_dir2
          = Some (Inr pd_DataFrame_empty, net st, files st))"
proof (intro conjI impI)
  assume a: "fetch_records http self n batch_size 0 where_clause None False None = (Inr df, n')
      \<and> empty df"
  let ?st0 = "\<lparr>net = n, files = (if save_raw then fs @ [MakeDirs output_dir] else fs),
          all_data = [], offset = 0, batch_num = 0\<rparr>"
  have "loop_body http self batch_size max_records where_clause save_raw output_dir ?st0
        = Break (?st0\<lparr>net := n'\<rparr>)"
    using a by (simp add: loop_body_def)
  then have "fetch_loop
      (loop_body http self batch_size max_records where_clause save_raw output_dir) ?st0
        = Some (None, ?st0\<lparr>net := n'\<rparr>)"
    by (subst fetch_loop.simps) simp
  then show "fetch_all_records http self now_iso n fs batch_size max_records where_clause
            save_raw output_dir
          = Some (Inr pd_DataFrame_empty, n',
                  if save_raw then fs @ [MakeDirs output_dir] else fs)"
    by (simp add: fetch_all_records_def)
  from a show "sent n' = sent n @
            [\<lparr>url = BASE_URL,
              params = fetch_params batch_size 0 where_clause None False None,
              req_timeout = timeout self\<rparr>]"
    using fetch_records_sent by blast
next
  assume "fetch_loop
         (loop_body http2 self2 batch_size2 max_records2 where_clause2 save_raw2 output_dir2)
         \<lparr>net = n2, files = (if save_raw2 then fs2 @ [MakeDirs output_dir2] else fs2),
          all_data = [], offset = 0, batch_num = 0\<rparr> = Some (None, st)
      \<and> all_data st = []"
  then show "fetch_all_records http2 self2 now_iso2 n2 fs2 batch_size2 max_records2 where_clause2
            save_raw2 output_dir2
          = Some (Inr pd_DataFrame_empty, net st, files st)"
    by (simp add: fetch_all_records_def)
qed

theorem fetch_all_records_first_page_empty_witness:
  "fetch_all_records replay \<lparr>timeout = 30, field_names = None\<rparr> ''2024-01-01T00:00:00''
      \<lparr>world = [page_of 0 (Feature (None :: nat row option))], sent = []\<rparr> []
      2000 None ''1=1'' False ''data/raw''
   = Some (Inr pd_DataFrame_empty,
           \<lparr>world = [],
            sent = [\<lparr>url = BASE_URL, params = fetch_params 2000 0 ''1=1'' None False None,
                     req_timeout = 30\<rparr>]\<rparr>, [])"
proof -
  let ?self = "\<lparr>timeout = 30, field_names = None\<rparr>"
  let ?n = "\<lparr>world = [page_of 0 (Feature (None :: nat row option))], sent = []\<rparr>"
  let ?n' = "\<lparr>world = [] :: nat body list,
            sent = [\<lparr>url = BASE_URL, params = fetch_params 2000 0 ''1=1'' None False None,
                     req_timeout = 30\<rparr>]\<rparr>"
  let ?st = "\<lparr>net = ?n', files = [] :: nat file_event list, all_data = [],
              offset = 0, batch_num = 0\<rparr>"
  have page: "fetch_records replay ?self ?n 2000 0 ''1=1'' None False None
                = (Inr pd_DataFrame_empty, ?n')"
    by (simp add: fetch_records_def make_request_def page_of_def)
  have emp: "empty (pd_DataFrame_empty :: nat dataframe)"
    by (simp add: empty_def pd_DataFrame_empty_def)
  have "loop_body replay ?self 2000 None ''1=1'' False ''data/raw''
          \<lparr>net = ?n, files = [], all_data = [], offset = 0, batch_num = 0\<rparr> = Break ?st"
    using page emp by (simp add: loop_body_def)
  then have run: "fetch_loop (loop_body replay ?self 2000 None ''1=1'' False ''data/raw'')
          \<lparr>net = ?n, files = (if False then [] @ [MakeDirs ''data/raw''] else []),
           all_data = [], offset = 0, batch_num = 0\<rparr> = Some (None, ?st)"
    by (subst fetch_loop.simps) simp
  show ?thesis
    using fetch_all_records_first_page_empty
      [where http = replay and self = ?self and n = ?n and batch_size = 2000
         and where_clause = "''1=1''" and df = pd_DataFrame_empty and n' = ?n'
         and now_iso = "''2024-01-01T00:00:00''" and fs = "[]" and max_records = None
         and save_raw = False and output_dir = "''data/raw''"
         and ?http2.0 = replay and ?self2.0 = ?self and ?n2.0 = ?n and ?batch_size2.0 = 2000
         and ?where_clause2.0 = "''1=1''" and ?now_iso2.0 = "''2024-01-01T00:00:00''"
         and ?fs2.0 = "[]" and ?max_records2.0 = None and ?save_raw2.0 = False
         and ?output_dir2.0 = "''data/raw''" and st = ?st]
      page emp run
    by simp
qed

text \<open>
  C9. \<^verbatim>\<open>get_field_info\<close> never raises: whatever the \<^verbatim>\<open>try\<close> block raises is
  printed after the lines already printed and the empty list is returned, with the
  object unchanged; in particular this holds for every failure of the transport.
\<close>

theorem get_field_info_never_raises:
  "(\<exists>flds. fst (get_field_info http self n out) = Inr flds)
   \<and> (get_field_info_try http self n out = (Inl e, self', n', out')
      \<longrightarrow> get_field_info http self n out
            = (Inr [], self', n', out' @ [''Could not fetch field info: '' @ message e])
          \<and> self' = self)
   \<and> (http (world n) \<lparr>url = py_replace ''/query'' [] BASE_URL,
                       params = [(''f'', PStr ''json'')],
                       req_timeout = timeout self\<rparr> = (Inl e2, w2)
      \<longrightarrow> get_field_info http self n out
            = (Inr [], self,
               \<lparr>world = w2,
                sent = sent n @ [\<lparr>url = py_replace ''/query'' [] BASE_URL,
                                  params = [(''f'', PStr ''json'')],
                                  req_timeout = timeout self\<rparr>]\<rparr>,
               out @ [''Could not fetch field info: '' @ message e2]))"
proof (intro conjI impI)
  show "\<exists>flds. fst (get_field_info http self n out) = Inr flds"
    by (cases "get_field_info_try http self n out")
      (auto simp add: get_field_info_def split: sum.splits)
next
  assume a: "get_field_info_try http self n out = (Inl e, self', n', out')"
  then show "get_field_info http self n out
            = (Inr [], self', n', out' @ [''Could not fetch field info: '' @ message e])"
    by (simp add: get_field_info_def)
  from a show "self' = self"
    by (auto simp add: get_field_info_try_def Let_def
          split: prod.splits sum.splits option.splits)
next
  assume "http (world n) \<lparr>url = py_replace ''/query'' [] BASE_URL,
                       params = [(''f'', PStr ''json'')],
                       req_timeout = timeout self\<rparr> = (Inl e2, w2)"
  then show "get_field_info http self n out
            = (Inr [], self,
               \<lparr>world = w2,
                sent = sent n @ [\<lparr>url = py_replace ''/query'' [] BASE_URL,
                                  params = [(''f'', PStr ''json'')],
                                  req_timeout = timeout self\<rparr>]\<rparr>,
               out @ [''Could not fetch field info: '' @ message e2])"
    by (simp add: get_field_info_def get_field_info_try_def Let_def)
qed

theorem get_field_info_never_raises_witness:
  "get_field_info (\<lambda>w rq. (Inl (Timeout ''Read timed out.'') :: exn + nat body, w))
      \<lparr>timeout = 30, field_names = None\<rparr> \<lparr>world = (), sent = []\<rparr> []
   = (Inr [], \<lparr>timeout = 30, field_names = None\<rparr>,
      \<lparr>world = (),
       sent = [\<lparr>url = py_replace ''/query'' [] BASE_URL, params = [(''f'', PStr ''json'')],
                req_timeout = 30\<rparr>]\<rparr>,
      [''Could not fetch field info: Read timed out.''])"
proof -
  let ?http = "\<lambda>w rq. (Inl (Timeout ''Read timed out.'') :: exn + nat body, w)"
  let ?self = "\<lparr>timeout = 30, field_names = None\<rparr>"
  let ?n = "\<lparr>world = (), sent = []\<rparr>"
  let ?n' = "\<lparr>world = (),
       sent = [\<lparr>url = py_replace ''/query'' [] BASE_URL, params = [(''f'', PStr ''json'')],
                req_timeout = 30\<rparr>]\<rparr>"
  have tr: "get_field_info_try ?http ?self ?n []
               = (Inl (Timeout ''Read timed out.''), ?self, ?n', [])"
    by (simp add: get_field_info_try_def)
  show ?thesis
    using get_field_info_never_raises
      [where http = ?http and self = ?self and n = ?n and out = "[]"
         and e = "Timeout ''Read timed out.''" and self' = ?self and n' = ?n' and out' = "[]"
         and ?e2.0 = "Timeout ''Read timed out.''" and ?w2.0 = "()"]
      tr
    by simp
qed

text \<open>
  C7 (amended). The metadata written by \<^verbatim>\<open>save_raw_data\<close> has the row count of the
  saved table as \<^verbatim>\<open>record_count\<close> and its column names as \<^verbatim>\<open>columns\<close>. The date range
  is null when the table has no column \<^verbatim>\<open>Created_at_local\<close>. When the table has the
  column, at least one row, and a value in every row of the column, the date range is
  \<^verbatim>\<open>str\<close> of the least and of the greatest value of the column. When the table has the
  column and no row, both entries are the text \<^verbatim>\<open>nan\<close>. Nothing is stated for a column
  with a missing cell.
\<close>

theorem save_raw_data_metadata:
  "\<exists>path md.
      snd (save_raw_data py_str na_min na_max stamp now_iso fs df filename output_dir)
        = fs @ [MakeDirs output_dir,
                WriteCsv (fst (save_raw_data py_str na_min na_max stamp now_iso fs df
                                 filename output_dir)) df,
                WriteJson path md]
      \<and> record_count md = len df
      \<and> meta_columns md = columns df
      \<and> (''Created_at_local'' \<notin> set (columns df)
           \<longrightarrow> date_range_min md = None \<and> date_range_max md = None)
      \<and> (''Created_at_local'' \<in> set (columns df) \<and> rows df \<noteq> []
           \<and> None \<notin> set (column df ''Created_at_local'')
           \<longrightarrow> date_range_min md
                 = Some (py_str (Min (set (present (column df ''Created_at_local'')))))
               \<and> date_range_max md
                 = Some (py_str (Max (set (present (column df ''Created_at_local''))))))
      \<and> (''Created_at_local'' \<in> set (columns df) \<and> rows df = []
           \<longrightarrow> date_range_min md = Some ''nan'' \<and> date_range_max md = Some ''nan'')"
proof -
  have full: "rows df \<noteq> [] \<Longrightarrow> None \<notin> set (column df ''Created_at_local'')
      \<Longrightarrow> str_series_min py_str na_min (column df ''Created_at_local'')
            = py_str (Min (set (present (column df ''Created_at_local''))))
        \<and> str_series_max py_str na_max (column df ''Created_at_local'')
            = py_str (Max (set (present (column df ''Created_at_local''))))"
    using str_series_min_Min [of "column df ''Created_at_local''" py_str na_min]
      str_series_max_Max [of "column df ''Created_at_local''" py_str na_max]
    by (simp add: column_def)
  have none: "rows df = []
      \<Longrightarrow> str_series_min py_str na_min (column df ''Created_at_local'') = ''nan''
        \<and> str_series_max py_str na_max (column df ''Created_at_local'') = ''nan''"
    by (simp add: column_def str_series_min_def str_series_max_def present_def)
  show ?thesis
    using full none by (auto simp add: save_raw_data_def Let_def)
qed

theorem save_raw_data_metadata_witness:
  "(\<exists>path md.
      snd (save_raw_data (\<lambda>s. s) (\<lambda>cells. []) (\<lambda>cells. []) ''20240101_000000''
             ''2024-01-01T00:00:00'' []
             (pd_DataFrame
                [[(''Id'', ''17''), (''Created_at_local'', ''2024-03-01T10:00:00'')],
                 [(''Id'', ''18''), (''Created_at_local'', ''2024-01-15T08:30:00'')]])
             None ''data/raw'')
        = [MakeDirs ''data/raw'',
           WriteCsv ''data/raw/syracuse_311_raw_20240101_000000.csv''
             (pd_DataFrame
                [[(''Id'', ''17''), (''Created_at_local'', ''2024-03-01T10:00:00'')],
                 [(''Id'', ''18''), (''Created_at_local'', ''2024-01-15T08:30:00'')]]),
           WriteJson path md]
      \<and> record_count md = 2
      \<and> meta_columns md = [''Id'', ''Created_at_local'']
      \<and> date_range_min md = Some ''2024-01-15T08:30:00''
      \<and> date_range_max md = Some ''2024-03-01T10:00:00'')
   \<and> (\<exists>path md.
      snd (save_raw_data (\<lambda>s. s) (\<lambda>cells. []) (\<lambda>cells. []) ''20240101_000000''
             ''2024-01-01T00:00:00'' [] (pd_DataFrame [[(''Id'', ''17'')]]) None ''data/raw'')
        = [MakeDirs ''data/raw'',
           WriteCsv ''data/raw/syracuse_311_raw_20240101_000000.csv''
             (pd_DataFrame [[(''Id'', ''17'')]]),
           WriteJson path md]
      \<and> record_count md = 1
      \<and> meta_columns md = [''Id'']
      \<and> date_range_min md = None
      \<and> date_range_max md = None)
   \<and> (\<exists>path md.
      snd (save_raw_data (\<lambda>s. s) (\<lambda>cells. []) (\<lambda>cells. []) ''20240101_000000''
             ''2024-01-01T00:00:00'' []
             \<lparr>columns = [''Created_at_local''], rows = [], attrs = []\<rparr> None ''data/raw'')
        = [MakeDirs ''data/raw'',
           WriteCsv ''data/raw/syracuse_311_raw_20240101_000000.csv''
             \<lparr>columns = [''Created_at_local''], rows = [], attrs = []\<rparr>,
           WriteJson path md]
      \<and> record_count md = 0
      \<and> meta_columns md = [''Created_at_local'']
      \<and> date_range_min md = Some ''nan''
      \<and> date_range_max md = Some ''nan'')"
proof (intro conjI)
  let ?df = "pd_DataFrame
                [[(''Id'', ''17''), (''Created_at_local'', ''2024-03-01T10:00:00'')],
                 [(''Id'', ''18''), (''Created_at_local'', ''2024-01-15T08:30:00'')]]"
  have cols: "columns ?df = [''Id'', ''Created_at_local'']"
    by (simp add: pd_DataFrame_def)
  have cells: "column ?df ''Created_at_local''
                 = [Some ''2024-03-01T10:00:00'', Some ''2024-01-15T08:30:00'']"
    by (simp add: pd_DataFrame_def column_def)
  have vals: "present (column ?df ''Created_at_local'')
                = [''2024-03-01T10:00:00'', ''2024-01-15T08:30:00'']"
    by (simp add: cells present_def)
  have n: "len ?df = 2" "rows ?df \<noteq> []"
    by (simp_all add: pd_DataFrame_def len_def)
  have path: "fst (save_raw_data (\<lambda>s. s) (\<lambda>cells. []) (\<lambda>cells. []) ''20240101_000000''
             ''2024-01-01T00:00:00'' [] ?df None ''data/raw'')
        = ''data/raw/syracuse_311_raw_20240101_000000.csv''"
    by (simp add: save_raw_data_def Let_def path_join_def)
  have mm: "Min (set [''2024-03-01T10:00:00'', ''2024-01-15T08:30:00''])
              = ''2024-01-15T08:30:00''"
    "Max (set [''2024-03-01T10:00:00'', ''2024-01-15T08:30:00''])
              = ''2024-03-01T10:00:00''"
    by simp_all
  from save_raw_data_metadata
      [where py_str = "\<lambda>s. s" and na_min = "\<lambda>cells. []" and na_max = "\<lambda>cells. []"
         and stamp = "''20240101_000000''"
         and now_iso = "''2024-01-01T00:00:00''" and fs = "[]" and df = ?df
         and filename = None and output_dir = "''data/raw''"]
  obtain path md where
    h: "snd (save_raw_data (\<lambda>s. s) (\<lambda>cells. []) (\<lambda>cells. []) ''20240101_000000''
              ''2024-01-01T00:00:00'' [] ?df None ''data/raw'')
        = [] @ [MakeDirs ''data/raw'',
           WriteCsv (fst (save_raw_data (\<lambda>s. s) (\<lambda>cells. []) (\<lambda>cells. [])
              ''20240101_000000'' ''2024-01-01T00:00:00'' [] ?df None ''data/raw'')) ?df,
           WriteJson path md]"
      and h1: "record_count md = len ?df" "meta_columns md = columns ?df"
      and h2: "''Created_at_local'' \<in> set (columns ?df) \<and> rows ?df \<noteq> []
           \<and> None \<notin> set (column ?df ''Created_at_local'')
           \<longrightarrow> date_range_min md
                 = Some (Min (set (present (column ?df ''Created_at_local''))))
               \<and> date_range_max md
                 = Some (Max (set (present (column ?df ''Created_at_local''))))"
    by blast
  have pre: "''Created_at_local'' \<in> set (columns ?df) \<and> rows ?df \<noteq> []
           \<and> None \<notin> set (column ?df ''Created_at_local'')"
    using n(2) by (simp add: cols cells)
  from h2 pre have "date_range_min md
                 = Some (Min (set (present (column ?df ''Created_at_local''))))"
    and "date_range_max md
                 = Some (Max (set (present (column ?df ''Created_at_local''))))"
    by blast+
  then have "date_range_min md = Some ''2024-01-15T08:30:00''"
    and "date_range_max md = Some ''2024-03-01T10:00:00''"
    by (simp_all only: vals mm)
  with h h1 cols n(1) path show "\<exists>path md.
      snd (save_raw_data (\<lambda>s. s) (\<lambda>cells. []) (\<lambda>cells. []) ''20240101_000000''
             ''2024-01-01T00:00:00'' [] ?df None ''data/raw'')
        = [MakeDirs ''data/raw'',
           WriteCsv ''data/raw/syracuse_311_raw_20240101_000000.csv'' ?df,
           WriteJson path md]
      \<and> record_count md = 2
      \<and> meta_columns md = [''Id'', ''Created_at_local'']
      \<and> date_range_min md = Some ''2024-01-15T08:30:00''
      \<and> date_range_max md = Some ''2024-03-01T10:00:00''"
    by (intro exI [of _ path] exI [of _ md]) simp
next
  let ?df = "pd_DataFrame [[(''Id'', ''17'')]]"
  have cols: "columns ?df = [''Id'']"
    by (simp add: pd_DataFrame_def)
  have n: "len ?df = 1"
    by (simp add: pd_DataFrame_def len_def)
  have path: "fst (save_raw_data (\<lambda>s. s) (\<lambda>cells. []) (\<lambda>cells. []) ''20240101_000000''
             ''2024-01-01T00:00:00'' [] ?df None ''data/raw'')
        = ''data/raw/syracuse_311_raw_20240101_000000.csv''"
    by (simp add: save_raw_data_def Let_def path_join_def)
  from save_raw_data_metadata
      [where py_str = "\<lambda>s. s" and na_min = "\<lambda>cells. []" and na_max = "\<lambda>cells. []"
         and stamp = "''20240101_000000''"
         and now_iso = "''2024-01-01T00:00:00''" and fs = "[]" and df = ?df
         and filename = None and output_dir = "''data/raw''"]
  obtain path md where
    h: "snd (save_raw_data (\<lambda>s. s) (\<lambda>cells. []) (\<lambda>cells. []) ''20240101_000000''
              ''2024-01-01T00:00:00'' [] ?df None ''data/raw'')
        = [] @ [MakeDirs ''data/raw'',
           WriteCsv (fst (save_raw_data (\<lambda>s. s) (\<lambda>cells. []) (\<lambda>cells. [])
              ''20240101_000000'' ''2024-01-01T00:00:00'' [] ?df None ''data/raw'')) ?df,
           WriteJson path md]"
      and h1: "record_count md = len ?df" "meta_columns md = columns ?df"
      and h2: "''Created_at_local'' \<notin> set (columns ?df)
           \<longrightarrow> date_range_min md = None \<and> date_range_max md = None"
    by blast
  with cols n path show "\<exists>path md.
      snd (save_raw_data (\<lambda>s. s) (\<lambda>cells. []) (\<lambda>cells. []) ''20240101_000000''
             ''2024-01-01T00:00:00'' [] ?df None ''data/raw'')
        = [MakeDirs ''data/raw'',
           WriteCsv ''data/raw/syracuse_311_raw_20240101_000000.csv'' ?df,
           WriteJson path md]
      \<and> record_count md = 1
      \<and> meta_columns md = [''Id'']
      \<and> date_range_min md = None
      \<and> date_range_max md = None"
    by (intro exI [of _ path] exI [of _ md]) simp
next
  let ?df = "\<lparr>columns = [''Created_at_local''], rows = [] :: string row list, attrs = []\<rparr>"
  have path: "fst (save_raw_data (\<lambda>s. s) (\<lambda>cells. []) (\<lambda>cells. []) ''20240101_000000''
             ''2024-01-01T00:00:00'' [] ?df None ''data/raw'')
        = ''data/raw/syracuse_311_raw_20240101_000000.csv''"
    by (simp add: save_raw_data_def Let_def path_join_def)
  from save_raw_data_metadata
      [where py_str = "\<lambda>s. s" and na_min = "\<lambda>cells. []" and na_max = "\<lambda>cells. []"
         and stamp = "''20240101_000000''"
         and now_iso = "''2024-01-01T00:00:00''" and fs = "[]" and df = ?df
         and filename = None and output_dir = "''data/raw''"]
  obtain path md where
    h: "snd (save_raw_data (\<lambda>s. s) (\<lambda>cells. []) (\<lambda>cells. []) ''20240101_000000''
              ''2024-01-01T00:00:00'' [] ?df None ''data/raw'')
        = [] @ [MakeDirs ''data/raw'',
           WriteCsv (fst (save_raw_data (\<lambda>s. s) (\<lambda>cells. []) (\<lambda>cells. [])
              ''20240101_000000'' ''2024-01-01T00:00:00'' [] ?df None ''data/raw'')) ?df,
           WriteJson path md]"
      and h1: "record_count md = len ?df" "meta_columns md = columns ?df"
      and h2: "''Created_at_local'' \<in> set (columns ?df) \<and> rows ?df = []
           \<longrightarrow> date_range_min md = Some ''nan'' \<and> date_range_max md = Some ''nan''"
    by blast
  with path show "\<exists>path md.
      snd (save_raw_data (\<lambda>s. s) (\<lambda>cells. []) (\<lambda>cells. []) ''20240101_000000''
             ''2024-01-01T00:00:00'' [] ?df None ''data/raw'')
        = [MakeDirs ''data/raw'',
           WriteCsv ''data/raw/syracuse_311_raw_20240101_000000.csv'' ?df,
           WriteJson path md]
      \<and> record_count md = 0
      \<and> meta_columns md = [''Created_at_local'']
      \<and> date_range_min md = Some ''nan''
      \<and> date_range_max md = Some ''nan''"
    by (intro exI [of _ path] exI [of _ md]) (simp add: len_def)
qed

text \<open>
  C7 as stated fails for a table that has the column \<^verbatim>\<open>Created_at_local\<close> and no row
  (\<^verbatim>\<open>pd.DataFrame(columns=['Created_at_local'])\<close>): the column has no least or greatest
  value, and the metadata holds the text \<^verbatim>\<open>nan\<close> twice, not null.
\<close>

theorem save_raw_data_metadata_counterexample:
  "save_raw_data (\<lambda>s. s) (\<lambda>cells. []) (\<lambda>cells. []) ''20240101_000000''
      ''2024-01-01T00:00:00'' []
      \<lparr>columns = [''Created_at_local''], rows = [], attrs = []\<rparr> None ''data/raw''
   = (''data/raw/syracuse_311_raw_20240101_000000.csv'',
      [MakeDirs ''data/raw'',
       WriteCsv ''data/raw/syracuse_311_raw_20240101_000000.csv''
         \<lparr>columns = [''Created_at_local''], rows = [], attrs = []\<rparr>,
       WriteJson ''data/raw/syracuse_311_raw_20240101_000000_metadata.json''
         \<lparr>extraction_timestamp = ''2024-01-01T00:00:00'', record_count = 0,
          meta_columns = [''Created_at_local''],
          date_range_min = Some ''nan'', date_range_max = Some ''nan''\<rparr>])
   \<and> ''Created_at_local''
        \<in> set (columns \<lparr>columns = [''Created_at_local''], rows = [] :: string row list,
                          attrs = []\<rparr>)
   \<and> present (column \<lparr>columns = [''Created_at_local''], rows = [] :: string row list,
                        attrs = []\<rparr> ''Created_at_local'') = []
   \<and> Some ''nan'' \<noteq> (None :: string option)"
  by (simp add: save_raw_data_def Let_def path_join_def py_replace_def len_def
        str_series_min_def str_series_max_def column_def present_def)

text \<open>
  C8. For the file name \<^verbatim>\<open>data.txt\<close>, which holds no \<^verbatim>\<open>.csv\<close>, the path of the
  metadata file is the path of the table itself: \<^verbatim>\<open>str.replace\<close> leaves it unchanged,
  and the metadata is written over the table.
\<close>

theorem save_raw_data_sidecar_path_clash:
  "\<exists>md. save_raw_data py_str na_min na_max stamp now_iso [] df (Some ''data.txt'')
          ''data/raw''
      = (''data/raw/data.txt'',
         [MakeDirs ''data/raw'', WriteCsv ''data/raw/data.txt'' df,
          WriteJson ''data/raw/data.txt'' md])"
  by (simp add: save_raw_data_def Let_def path_join_def py_replace_def)







text \<open>
  C2 (amended). With \<^verbatim>\<open>batch_size=2000\<close> and no cap, let the pages returned by
  \<^verbatim>\<open>fetch_records\<close> at the offsets 0, 2000 and 4000 have 2000, 2000 and 437 rows and
  at least one column each. Then \<^verbatim>\<open>fetch_all_records\<close> sends exactly these three
  requests and returns the rows of the three pages in that order, 4437 rows.
\<close>

theorem fetch_all_records_three_pages:
  assumes p1: "fetch_records http self n 2000 0 where_clause None False None = (Inr p1, n1)"
    and p2: "fetch_records http self n1 2000 2000 where_clause None False None = (Inr p2, n2)"
    and p3: "fetch_records http self n2 2000 4000 where_clause None False None = (Inr p3, n3)"
    and sizes: "len p1 = 2000" "len p2 = 2000" "len p3 = 437"
    and cols: "columns p1 \<noteq> []" "columns p2 \<noteq> []" "columns p3 \<noteq> []"
  shows "\<exists>fs'.
      fetch_all_records http self now_iso n fs 2000 None where_clause save_raw output_dir
        = Some (Inr \<lparr>columns = unique (columns p1 @ columns p2 @ columns p3),
                      rows = rows p1 @ rows p2 @ rows p3,
                      attrs = [(''extraction_timestamp'', AttrStr now_iso),
                               (''total_records'', AttrInt 4437)]\<rparr>, n3, fs')
      \<and> length (rows p1 @ rows p2 @ rows p3) = 4437
      \<and> sent n3 = sent n @
            [\<lparr>url = BASE_URL, params = fetch_params 2000 0 where_clause None False None,
              req_timeout = timeout self\<rparr>,
             \<lparr>url = BASE_URL, params = fetch_params 2000 2000 where_clause None False None,
              req_timeout = timeout self\<rparr>,
             \<lparr>url = BASE_URL, params = fetch_params 2000 4000 where_clause None False None,
              req_timeout = timeout self\<rparr>]"
proof -
  let ?body = "loop_body http self 2000 None where_clause save_raw output_dir"
  let ?st0 = "\<lparr>net = n, files = (if save_raw then fs @ [MakeDirs output_dir] else fs),
       all_data = [], offset = 0, batch_num = 0\<rparr>"
  let ?st1 = "after_batch save_raw output_dir ?st0 p1 n1"
  let ?st2 = "after_batch save_raw output_dir ?st1 p2 n2"
  let ?st3 = "after_batch save_raw output_dir ?st2 p3 n3"
  from sizes cols have ne: "\<not> empty p1" "\<not> empty p2" "\<not> empty p3"
    by (auto simp add: empty_def len_def)
  have s1: "net ?st1 = n1" "offset ?st1 = 2000" "all_data ?st1 = [p1]"
    using sizes by (simp_all add: after_batch_def)
  have s2: "net ?st2 = n2" "offset ?st2 = 4000" "all_data ?st2 = [p1, p2]"
    using sizes s1 by (simp_all add: after_batch_def [of _ _ ?st1])
  have s3: "net ?st3 = n3" "all_data ?st3 = [p1, p2, p3]"
    using s2 by (simp_all add: after_batch_def [of _ _ ?st2])
  have b1: "?body ?st0 = Continue ?st1"
    using loop_body_batch [of http self ?st0 2000 where_clause p1 n1 None save_raw output_dir]
      p1 ne sizes by simp
  have b2: "?body ?st1 = Continue ?st2"
    using loop_body_batch [of http self ?st1 2000 where_clause p2 n2 None save_raw output_dir]
      p2 ne sizes s1 by simp
  have b3: "?body ?st2 = Break ?st3"
    using loop_body_batch [of http self ?st2 2000 where_clause p3 n3 None save_raw output_dir]
      p3 ne sizes s2 by simp
  have "fetch_loop ?body ?st2 = Some (None, ?st3)"
    by (subst fetch_loop.simps) (simp add: b3)
  then have "fetch_loop ?body ?st1 = Some (None, ?st3)"
    by (subst fetch_loop.simps) (simp add: b2)
  then have run: "fetch_loop ?body ?st0 = Some (None, ?st3)"
    by (subst fetch_loop.simps) (simp add: b1)
  have "fetch_all_records http self now_iso n fs 2000 None where_clause save_raw output_dir
        = Some (Inr \<lparr>columns = unique (columns p1 @ columns p2 @ columns p3),
                      rows = rows p1 @ rows p2 @ rows p3,
                      attrs = [(''extraction_timestamp'', AttrStr now_iso),
                               (''total_records'', AttrInt 4437)]\<rparr>, n3, files ?st3)"
    using fetch_all_records_result [OF run, of now_iso] s3 sizes by simp
  moreover have "length (rows p1 @ rows p2 @ rows p3) = 4437"
    using sizes by (simp add: len_def)
  moreover have "sent n3 = sent n @
            [\<lparr>url = BASE_URL, params = fetch_params 2000 0 where_clause None False None,
              req_timeout = timeout self\<rparr>,
             \<lparr>url = BASE_URL, params = fetch_params 2000 2000 where_clause None False None,
              req_timeout = timeout self\<rparr>,
             \<lparr>url = BASE_URL, params = fetch_params 2000 4000 where_clause None False None,
              req_timeout = timeout self\<rparr>]"
    using fetch_records_sent [OF p1] fetch_records_sent [OF p2] fetch_records_sent [OF p3]
    by simp
  ultimately show ?thesis by blast
qed

theorem fetch_all_records_three_pages_witness:
  "\<exists>fs'.
      fetch_all_records replay \<lparr>timeout = 30, field_names = None\<rparr> ''2024-01-01T00:00:00''
        \<lparr>world = [page_of 2000 (Feature (Some [(''Id'', 7::nat)])),
                  page_of 2000 (Feature (Some [(''Id'', 7)])),
                  page_of 437 (Feature (Some [(''Id'', 7)]))], sent = []\<rparr>
        [] 2000 None ''1=1'' False ''data/raw''
        = Some (Inr \<lparr>columns = [''Id''],
                      rows = replicate 2000 [(''Id'', 7)] @ replicate 2000 [(''Id'', 7)]
                             @ replicate 437 [(''Id'', 7)],
                      attrs = [(''extraction_timestamp'', AttrStr ''2024-01-01T00:00:00''),
                               (''total_records'', AttrInt 4437)]\<rparr>,
                \<lparr>world = [],
                 sent = [\<lparr>url = BASE_URL, params = fetch_params 2000 0 ''1=1'' None False None,
                          req_timeout = 30\<rparr>,
                         \<lparr>url = BASE_URL, params = fetch_params 2000 2000 ''1=1'' None False None,
                          req_timeout = 30\<rparr>,
                         \<lparr>url = BASE_URL, params = fetch_params 2000 4000 ''1=1'' None False None,
                          req_timeout = 30\<rparr>]\<rparr>, fs')"
proof -
  let ?self = "\<lparr>timeout = 30, field_names = None\<rparr>"
  let ?f = "Feature (Some [(''Id'', 7::nat)])"
  let ?r0 = "\<lparr>url = BASE_URL, params = fetch_params 2000 0 ''1=1'' None False None,
              req_timeout = 30\<rparr>"
  let ?r1 = "\<lparr>url = BASE_URL, params = fetch_params 2000 2000 ''1=1'' None False None,
              req_timeout = 30\<rparr>"
  let ?r2 = "\<lparr>url = BASE_URL, params = fetch_params 2000 4000 ''1=1'' None False None,
              req_timeout = 30\<rparr>"
  let ?n = "\<lparr>world = [page_of 2000 ?f, page_of 2000 ?f, page_of 437 ?f], sent = []\<rparr>"
  let ?n1 = "\<lparr>world = [page_of 2000 ?f, page_of 437 ?f], sent = [?r0]\<rparr>"
  let ?n2 = "\<lparr>world = [page_of 437 ?f], sent = [?r0, ?r1]\<rparr>"
  let ?n3 = "\<lparr>world = [] :: nat body list, sent = [?r0, ?r1, ?r2]\<rparr>"
  let ?p = "pd_DataFrame (replicate 2000 [(''Id'', 7::nat)])"
  let ?q = "pd_DataFrame (replicate 437 [(''Id'', 7::nat)])"
  have p1: "fetch_records replay ?self ?n 2000 0 ''1=1'' None False None = (Inr ?p, ?n1)"
    by (simp add: fetch_records_replay_page)
  have p2: "fetch_records replay ?self ?n1 2000 2000 ''1=1'' None False None = (Inr ?p, ?n2)"
    by (simp add: fetch_records_replay_page)
  have p3: "fetch_records replay ?self ?n2 2000 4000 ''1=1'' None False None = (Inr ?q, ?n3)"
    by (simp add: fetch_records_replay_page)
  have sizes: "len ?p = 2000" "len ?q = 437"
    by (simp_all add: len_pd_DataFrame)
  have cols: "columns ?p = [''Id'']" "columns ?q = [''Id'']"
    by (simp_all add: pd_DataFrame_def unique_replicate)
  have rws: "rows ?p = replicate 2000 [(''Id'', 7)]" "rows ?q = replicate 437 [(''Id'', 7)]"
    by (simp_all add: pd_DataFrame_def)
  from cols have ne: "columns ?p \<noteq> []" "columns ?q \<noteq> []"
    by simp_all
  from fetch_all_records_three_pages
    [OF p1 p2 p3 sizes(1) sizes(1) sizes(2) ne(1) ne(1) ne(2),
     of "''2024-01-01T00:00:00''" "[]" False "''data/raw''"]
  show ?thesis
    by (simp add: cols rws)
qed

text \<open>
  C2 as stated fails for pages whose rows have no field at all: \<^verbatim>\<open>df.empty\<close> holds for a
  table without columns, however many rows it has. When the service returns pages of
  2000, 2000 and 437 features without attributes, \<^verbatim>\<open>fetch_records\<close> returns tables of
  2000, 2000 and 437 rows, and \<^verbatim>\<open>fetch_all_records\<close> stops after the first request and
  returns the empty table.
\<close>

theorem fetch_all_records_three_pages_counterexample:
  "fst (fetch_records replay \<lparr>timeout = 30, field_names = None\<rparr>
          \<lparr>world = [page_of 2000 (Feature (None :: nat row option)),
                    page_of 2000 (Feature None), page_of 437 (Feature None)], sent = []\<rparr>
          2000 0 ''1=1'' None False None)
     = Inr (pd_DataFrame (replicate 2000 []))
   \<and> fst (fetch_records replay \<lparr>timeout = 30, field_names = None\<rparr>
          \<lparr>world = [page_of 2000 (Feature (None :: nat row option)),
                    page_of 437 (Feature None)], sent = []\<rparr>
          2000 2000 ''1=1'' None False None)
     = Inr (pd_DataFrame (replicate 2000 []))
   \<and> fst (fetch_records replay \<lparr>timeout = 30, field_names = None\<rparr>
          \<lparr>world = [page_of 437 (Feature (None :: nat row option))], sent = []\<rparr>
          2000 4000 ''1=1'' None False None)
     = Inr (pd_DataFrame (replicate 437 []))
   \<and> len (pd_DataFrame (replicate 2000 ([] :: nat row))) = 2000
   \<and> len (pd_DataFrame (replicate 437 ([] :: nat row))) = 437
   \<and> fetch_all_records replay \<lparr>timeout = 30, field_names = None\<rparr> ''2024-01-01T00:00:00''
        \<lparr>world = [page_of 2000 (Feature (None :: nat row option)),
                  page_of 2000 (Feature None), page_of 437 (Feature None)], sent = []\<rparr>
        [] 2000 None ''1=1'' False ''data/raw''
     = Some (Inr pd_DataFrame_empty,
             \<lparr>world = [page_of 2000 (Feature None), page_of 437 (Feature None)],
              sent = [\<lparr>url = BASE_URL, params = fetch_params 2000 0 ''1=1'' None False None,
                       req_timeout = 30\<rparr>]\<rparr>, [])
   \<and> len (pd_DataFrame_empty :: nat dataframe) = 0"
proof -
  let ?self = "\<lparr>timeout = 30, field_names = None\<rparr>"
  let ?f = "Feature (None :: nat row option)"
  let ?n = "\<lparr>world = [page_of 2000 ?f, page_of 2000 ?f, page_of 437 ?f], sent = []\<rparr>"
  let ?n1 = "\<lparr>world = [page_of 2000 ?f, page_of 437 ?f],
              sent = [\<lparr>url = BASE_URL, params = fetch_params 2000 0 ''1=1'' None False None,
                       req_timeout = 30\<rparr>]\<rparr>"
  let ?p = "pd_DataFrame (replicate 2000 ([] :: nat row))"
  let ?st0 = "\<lparr>net = ?n, files = [] :: nat file_event list, all_data = [],
               offset = 0, batch_num = 0\<rparr>"
  have page: "fetch_records replay ?self (net ?st0) 2000 (offset ?st0) ''1=1'' None False None
                = (Inr ?p, ?n1)"
    by (simp add: fetch_records_replay_page)
  have emp: "empty ?p"
    by (simp add: empty_pd_DataFrame)
  from loop_body_empty [OF page emp, of None False "''data/raw''"]
  have "loop_body replay ?self 2000 None ''1=1'' False ''data/raw'' ?st0
          = Break (?st0\<lparr>net := ?n1\<rparr>)" .
  then have "fetch_loop (loop_body replay ?self 2000 None ''1=1'' False ''data/raw'') ?st0
          = Some (None, ?st0\<lparr>net := ?n1\<rparr>)"
    by (subst fetch_loop.simps) simp
  then have run: "fetch_all_records replay ?self ''2024-01-01T00:00:00'' ?n [] 2000 None
          ''1=1'' False ''data/raw'' = Some (Inr pd_DataFrame_empty, ?n1, [])"
    by (simp add: fetch_all_records_def)
  show ?thesis
    by (simp add: run fetch_records_replay_page len_pd_DataFrame)
       (simp add: len_def pd_DataFrame_empty_def)
qed

end
